theory Spec2Isabelle
  imports Main
begin

section \<open>Data model\<close>

text \<open>
  The quality-report route of \<^verbatim>\<open>routes.py\<close> works on pandas data frames. A frame is
  modelled by its column names, its row labels (\<^verbatim>\<open>df.index\<close>) and its rows of cells,
  row-major; row \<open>k\<close> of \<open>rows\<close> carries label \<open>index ! k\<close>.
\<close>

datatype cell = Str string | Num int | NaN

datatype error =
    KeyError string
  | ValueError string
  | UnicodeDecodeError
  | NotFound
  | OtherError string

record dataframe =
  columns :: "string list"
  index :: "nat list"
  rows :: "cell list list"

text \<open>\<^verbatim>\<open>pd.DataFrame()\<close>: no columns, no rows.\<close>

definition DataFrame :: dataframe where
  "DataFrame = \<lparr>columns = [], index = [], rows = []\<rparr>"

text \<open>Sequencing of calls that may raise: the first error is the result.\<close>

definition bind_err :: "error + 'a \<Rightarrow> ('a \<Rightarrow> error + 'b) \<Rightarrow> error + 'b" where
  "bind_err r f = (case r of Inl e \<Rightarrow> Inl e | Inr x \<Rightarrow> f x)"

section \<open>Strings\<close>

text \<open>
  \<^verbatim>\<open>str.lower()\<close> on the ASCII letters: \<open>A\<close> to \<open>Z\<close> are the codes 65 to 90, and
  the lower-case letter is the same code with bit 5 set (plus 32). Every other byte is
  kept. (No non-ASCII character lowers to one of the letters of the words compared
  below.)
\<close>

definition lower_char :: "char \<Rightarrow> char" where
  "lower_char c =
     (case c of Char b0 b1 b2 b3 b4 b5 b6 b7 \<Rightarrow>
        if 65 \<le> (of_char c :: nat) \<and> (of_char c :: nat) \<le> 90
        then Char b0 b1 b2 b3 b4 True b6 b7 else c)"

definition lower :: "string \<Rightarrow> string" where
  "lower s = map lower_char s"

text \<open>
  \<^verbatim>\<open>s.rsplit('.', 1)\<close>: split once at the last dot; a string without a dot is returned
  whole, as the only element.
\<close>

definition rsplit_dot :: "string \<Rightarrow> string list" where
  "rsplit_dot s =
     (let suffix = rev (takeWhile (\<lambda>c. c \<noteq> CHR ''.'') (rev s)) in
      if CHR ''.'' \<in> set s
      then [take (length s - length suffix - 1) s, suffix]
      else [s])"

section \<open>The loader\<close>

datatype encoding = UTF8 | Latin1

text \<open>
  The pandas readers are outside the repository; they are parameters of the model and
  may raise.
\<close>

record readers =
  read_excel :: "string \<Rightarrow> error + dataframe"
  read_csv :: "string \<Rightarrow> encoding \<Rightarrow> error + dataframe"

definition load_df :: "readers \<Rightarrow> string \<Rightarrow> string \<Rightarrow> error + dataframe" where
  "load_df pd filepath original_name =
     (let ext = last (rsplit_dot (lower original_name)) in
      if ext = ''xlsx'' \<or> ext = ''xls'' then read_excel pd filepath
      else if ext = ''csv'' then
        (case read_csv pd filepath UTF8 of
           Inl UnicodeDecodeError \<Rightarrow> read_csv pd filepath Latin1
         | r \<Rightarrow> r)
      else Inl (ValueError (''Unsupported file extension: '' @ ext)))"

section \<open>Frame operations used by the route\<close>

text \<open>
  \<^verbatim>\<open>df.loc[labels]\<close> with a list of labels: a new frame with the rows that carry each
  label, in the order of the list; a label that no row carries raises \<^verbatim>\<open>KeyError\<close>.
\<close>

definition loc :: "dataframe \<Rightarrow> nat list \<Rightarrow> error + dataframe" where
  "loc df labels =
     (if list_all (\<lambda>i. i \<in> set (index df)) labels
      then
        (let hits = concat (map (\<lambda>i. filter (\<lambda>p. fst p = i) (zip (index df) (rows df))) labels)
         in Inr \<lparr>columns = columns df, index = map fst hits, rows = map snd hits\<rparr>)
      else Inl (KeyError ''not in index''))"

text \<open>\<^verbatim>\<open>df.copy()\<close>: the same value (as a new object, see the store model below).\<close>

definition copy :: "dataframe \<Rightarrow> dataframe" where
  "copy df = df"

text \<open>
  \<^verbatim>\<open>df[c] = v\<close> with a scalar \<open>v\<close>: an existing column \<open>c\<close> is overwritten in every row,
  a new column is appended.
\<close>

definition set_cell :: "string list \<Rightarrow> string \<Rightarrow> cell \<Rightarrow> cell list \<Rightarrow> cell list" where
  "set_cell cols c v r =
     (if c \<in> set cols then map (\<lambda>(n, x). if n = c then v else x) (zip cols r) else r @ [v])"

definition setitem :: "dataframe \<Rightarrow> string \<Rightarrow> cell \<Rightarrow> dataframe" where
  "setitem df c v =
     df\<lparr>columns := (if c \<in> set (columns df) then columns df else columns df @ [c]),
        rows := map (set_cell (columns df) c v) (rows df)\<rparr>"

text \<open>The cell of a row under a column name; \<open>NaN\<close> where the row has no such column.\<close>

definition cell_at :: "string list \<Rightarrow> cell list \<Rightarrow> string \<Rightarrow> cell" where
  "cell_at cols r c = (case map_of (zip cols r) c of Some x \<Rightarrow> x | None \<Rightarrow> NaN)"

text \<open>
  \<^verbatim>\<open>pd.concat(frames, ignore_index=True)\<close>: the columns are the union of the frames'
  columns in order of first appearance, the rows follow frame by frame, a cell missing
  from a frame is \<open>NaN\<close>, and the labels are renumbered from 0. An empty list raises.
\<close>

definition pd_concat :: "dataframe list \<Rightarrow> error + dataframe" where
  "pd_concat frames =
     (if frames = [] then Inl (ValueError ''No objects to concatenate'')
      else
        (let cols = rev (remdups (rev (concat (map columns frames))));
             rs = concat (map (\<lambda>f. map (\<lambda>r. map (cell_at (columns f) r) cols) (rows f)) frames)
         in Inr \<lparr>columns = cols, index = [0..<length rs], rows = rs\<rparr>))"

text \<open>\<^verbatim>\<open>df[c]\<close>: the column as a sequence; an unknown column raises \<^verbatim>\<open>KeyError\<close>.\<close>

definition getitem :: "dataframe \<Rightarrow> string \<Rightarrow> error + cell list" where
  "getitem df c =
     (if c \<in> set (columns df) then Inr (map (\<lambda>r. cell_at (columns df) r c) (rows df))
      else Inl (KeyError c))"

text \<open>\<^verbatim>\<open>df[mask]\<close> with a boolean sequence: the rows (with their labels) where it holds.\<close>

definition getitem_mask :: "dataframe \<Rightarrow> bool list \<Rightarrow> dataframe" where
  "getitem_mask df keep =
     (let kept = map snd (filter fst (zip keep (zip (index df) (rows df))))
      in df\<lparr>index := map fst kept, rows := map snd kept\<rparr>)"

text \<open>\<^verbatim>\<open>df.empty\<close>: one of the two axes has length 0.\<close>

definition df_empty :: "dataframe \<Rightarrow> bool" where
  "df_empty df = (columns df = [] \<or> index df = [])"

section \<open>The merged outlier table and its filter\<close>

text \<open>
  The three blocks of the route that select the flagged rows, copy them and tag the copy:
  \<^verbatim>\<open>temp = df.loc[idx].copy(); temp["__outlier_type__"] = tag\<close>.
\<close>

definition tagged_copy :: "dataframe \<Rightarrow> nat list \<Rightarrow> string \<Rightarrow> error + dataframe" where
  "tagged_copy df idx tag =
     bind_err (loc df idx) (\<lambda>sel. Inr (setitem (copy sel) ''__outlier_type__'' (Str tag)))"

text \<open>\<^verbatim>\<open>if idx: temp = ...; merged_rows.append(temp)\<close>.\<close>

definition append_tagged ::
  "dataframe \<Rightarrow> dataframe list \<Rightarrow> nat list \<Rightarrow> string \<Rightarrow> error + dataframe list" where
  "append_tagged df merged_rows idx tag =
     (if idx \<noteq> []
      then bind_err (tagged_copy df idx tag) (\<lambda>temp. Inr (merged_rows @ [temp]))
      else Inr merged_rows)"

definition merged_outliers ::
  "dataframe \<Rightarrow> nat list \<Rightarrow> nat list \<Rightarrow> nat list \<Rightarrow> error + dataframe" where
  "merged_outliers df statistical_idx semantic_idx structural_idx =
     bind_err (append_tagged df [] statistical_idx ''Statistical'') (\<lambda>rows1.
     bind_err (append_tagged df rows1 semantic_idx ''AI-Based'') (\<lambda>rows2.
     bind_err (append_tagged df rows2 structural_idx ''Structural'') (\<lambda>merged_rows.
     if merged_rows \<noteq> [] then pd_concat merged_rows else Inr DataFrame)))"

text \<open>\<^verbatim>\<open>request.args.get("filter", "all").lower()\<close>; the argument is \<open>None\<close> when absent.\<close>

definition selected_filter_of :: "string option \<Rightarrow> string" where
  "selected_filter_of arg = lower (case arg of None \<Rightarrow> ''all'' | Some s \<Rightarrow> s)"

text \<open>\<^verbatim>\<open>merged_df[merged_df["__outlier_type__"] == tag]\<close>.\<close>

definition select_type :: "dataframe \<Rightarrow> string \<Rightarrow> error + dataframe" where
  "select_type merged_df tag =
     bind_err (getitem merged_df ''__outlier_type__'')
       (\<lambda>col. Inr (getitem_mask merged_df (map (\<lambda>x. x = Str tag) col)))"

definition filtered :: "dataframe \<Rightarrow> string \<Rightarrow> error + dataframe" where
  "filtered merged_df selected_filter =
     (if selected_filter = ''statistical'' then select_type merged_df ''Statistical''
      else if selected_filter = ''ai'' then select_type merged_df ''AI-Based''
      else if selected_filter = ''structural'' then select_type merged_df ''Structural''
      else Inr merged_df)"

section \<open>Application records and the functions of module \<^verbatim>\<open>quality\<close>\<close>

record dataset =
  dataset_id :: nat
  user_id :: nat
  filename :: string
  original_filename :: string
  profile_generated :: bool
  profile_path :: "string option"

text \<open>
  The dictionary returned by \<^verbatim>\<open>detect_outliers\<close>; a field is \<open>None\<close> when the key is
  missing.
\<close>

record out_tbl =
  structural_indices :: "nat list option"
  statistical_indices :: "nat list option"
  semantic_indices :: "nat list option"
  outlier_count :: "nat option"

text \<open>
  The dictionaries returned by \<^verbatim>\<open>detect_duplicates\<close> and \<^verbatim>\<open>detect_label_issues\<close>
  (keys \<^verbatim>\<open>preview\<close>, \<^verbatim>\<open>duplicate_rows_count\<close>, \<^verbatim>\<open>duplicate_rows_percent\<close> and
  \<^verbatim>\<open>label_issue_count\<close>, \<^verbatim>\<open>note\<close>, \<^verbatim>\<open>preview\<close>). A preview is kept as the frame that
  \<^verbatim>\<open>pd.DataFrame(preview)\<close> builds from it.
\<close>

record dup_tbl =
  preview :: "dataframe option"
  duplicate_rows_count :: "cell option"
  duplicate_rows_percent :: "cell option"

record labels_info =
  info_label_issue_count :: "cell option"
  info_note :: "string option"
  info_preview :: "dataframe option"

text \<open>\<^verbatim>\<open>d.get(key, default)\<close> on a field that may be missing.\<close>

definition get_or :: "'a option \<Rightarrow> 'a \<Rightarrow> 'a" where
  "get_or v dflt = (case v of None \<Rightarrow> dflt | Some x \<Rightarrow> x)"

text \<open>\<^verbatim>\<open>d.get(key, default)\<close> on a dictionary kept as an association list.\<close>

definition dict_get :: "(string \<times> 'v) list \<Rightarrow> string \<Rightarrow> 'v \<Rightarrow> 'v" where
  "dict_get d key dflt = (case map_of d key of None \<Rightarrow> dflt | Some x \<Rightarrow> x)"

text \<open>
  The functions imported from module \<^verbatim>\<open>quality\<close> are not part of the source at hand:
  they are parameters of the route, and each call may raise.
\<close>

record quality =
  detect_missing :: "dataframe \<Rightarrow> error + dataframe"
  detect_duplicates :: "dataframe \<Rightarrow> error + dup_tbl"
  detect_outliers :: "dataframe \<Rightarrow> error + out_tbl"
  detect_label_issues :: "dataframe \<Rightarrow> string option \<Rightarrow> error + labels_info"
  extract_ydata_overview_stats :: "string \<Rightarrow> error + (string \<times> cell) list option"
  auto_detect_target_column :: "dataframe \<Rightarrow> error + string option"

section \<open>The overview numbers of the profile report\<close>

text \<open>\<^verbatim>\<open>os.path.join(a, b)\<close> on POSIX paths.\<close>

definition path_join :: "string \<Rightarrow> string \<Rightarrow> string" where
  "path_join a b =
     (if b \<noteq> [] \<and> hd b = CHR ''/'' then b
      else if a = [] \<or> last a = CHR ''/'' then a @ b
      else a @ ''/'' @ b)"

text \<open>
  \<^verbatim>\<open>y_stats\<close>: the extractor runs only when the profile was generated and a non-empty
  profile path is recorded.
\<close>

definition ydata_stats ::
  "quality \<Rightarrow> string \<Rightarrow> dataset \<Rightarrow> error + (string \<times> cell) list option" where
  "ydata_stats q upload_folder dataset =
     (case profile_path dataset of
        None \<Rightarrow> Inr None
      | Some p \<Rightarrow>
          if profile_generated dataset \<and> p \<noteq> []
          then extract_ydata_overview_stats q (path_join upload_folder p)
          else Inr None)"

text \<open>
  \<^verbatim>\<open>y_stats.get(key, "N/A") if y_stats else "N/A"\<close>; \<open>None\<close> and the empty dictionary
  are both false.
\<close>

definition y_field :: "(string \<times> cell) list option \<Rightarrow> string \<Rightarrow> cell" where
  "y_field y_stats key =
     (case y_stats of
        None \<Rightarrow> Str ''N/A''
      | Some d \<Rightarrow> if d \<noteq> [] then dict_get d key (Str ''N/A'') else Str ''N/A'')"

section \<open>The manual target column held in the session\<close>

text \<open>\<^verbatim>\<open>str(n)\<close> for a non-negative integer.\<close>

function str_nat :: "nat \<Rightarrow> string" where
  "str_nat n =
     (if n < 10 then [''0123456789'' ! n]
      else str_nat (n div 10) @ [''0123456789'' ! (n mod 10)])"
  by pat_completeness auto
termination
  by (relation "measure id") auto

declare str_nat.simps [simp del]

definition session_key :: "nat \<Rightarrow> string" where
  "session_key i = ''manual_target_column_'' @ str_nat i"

type_synonym session = "string \<rightharpoonup> string"

text \<open>
  The route \<^verbatim>\<open>change_target_column\<close>: the form field is \<open>None\<close> when absent; an absent or
  empty field, or a dataset of another user, leaves the session as it is.
\<close>

definition change_target_column ::
  "dataset \<Rightarrow> nat \<Rightarrow> string option \<Rightarrow> session \<Rightarrow> session" where
  "change_target_column dataset current_user_id new_target session =
     (if user_id dataset \<noteq> current_user_id then session
      else
        (case new_target of
           None \<Rightarrow> session
         | Some t \<Rightarrow> if t = [] then session else session(session_key (dataset_id dataset) \<mapsto> t)))"

text \<open>
  Target column detection of the quality route. \<^verbatim>\<open>if manual_target and ...\<close> is false
  for \<open>None\<close> and for the empty string.
\<close>

definition resolve_target ::
  "quality \<Rightarrow> dataframe \<Rightarrow> dataset \<Rightarrow> session \<Rightarrow> error + (string option \<times> session)" where
  "resolve_target q df dataset session =
     (let key = session_key (dataset_id dataset);
          manual_target = session key;
          truthy = (case manual_target of None \<Rightarrow> False | Some m \<Rightarrow> m \<noteq> []);
          present = (case manual_target of None \<Rightarrow> False | Some m \<Rightarrow> m \<in> set (columns df))
      in if truthy \<and> present then Inr (manual_target, session)
         else bind_err (auto_detect_target_column q df)
                (\<lambda>detected_target.
                   if truthy \<and> \<not> present then Inr (detected_target, session(key := None))
                   else Inr (detected_target, session)))"

section \<open>The quality report route\<close>

text \<open>
  Rendering is outside the model: \<^verbatim>\<open>df.to_html(...)\<close> is kept as the frame it renders,
  a literal fragment as its text, and the duplicate summary as the four values it shows.
\<close>

datatype html = ToHtml dataframe | Markup string | DuplicateTable cell cell cell cell

text \<open>The keyword arguments passed to the template.\<close>

record report =
  report_dataset :: dataset
  missing_table :: html
  duplicate_table :: html
  dup_preview_html :: html
  merged_table :: html
  selected_filter :: string
  outlier_total :: nat
  structural_count :: nat
  statistical_count :: nat
  semantic_count :: nat
  label_issue_count :: cell
  label_table :: html
  label_note :: "string option"
  y_missing_cells :: cell
  y_missing_percent :: cell
  y_dup_rows :: cell
  y_dup_percent :: cell
  detected_target :: "string option"
  df_columns :: "string list"

definition quality_issues ::
  "readers \<Rightarrow> quality \<Rightarrow> string \<Rightarrow> (nat \<rightharpoonup> dataset) \<Rightarrow> nat \<Rightarrow> string option \<Rightarrow> session
     \<Rightarrow> error + (report \<times> session)" where
  "quality_issues pd q upload_folder db i filter_arg session =
     (case db i of
        None \<Rightarrow> Inl NotFound
      | Some dataset \<Rightarrow>
     bind_err (load_df pd (path_join upload_folder (filename dataset))
                 (original_filename dataset)) (\<lambda>df.
     bind_err (ydata_stats q upload_folder dataset) (\<lambda>y_stats.
     bind_err (detect_missing q df) (\<lambda>miss_tbl.
     bind_err (detect_duplicates q df) (\<lambda>dup.
     bind_err (detect_outliers q df) (\<lambda>out.
     let structural_idx = get_or (structural_indices out) [];
         statistical_idx = get_or (statistical_indices out) [];
         semantic_idx = get_or (semantic_indices out) []
     in
     bind_err (merged_outliers df statistical_idx semantic_idx structural_idx) (\<lambda>merged_df.
     bind_err (filtered merged_df (selected_filter_of filter_arg)) (\<lambda>filtered_df.
     bind_err (resolve_target q df dataset session) (\<lambda>(target, session').
     bind_err (detect_label_issues q df target) (\<lambda>labels.
     let label_df = get_or (info_preview labels) DataFrame;
         dup_prev_df = get_or (preview dup) DataFrame
     in
     Inr (\<lparr>report_dataset = dataset,
           missing_table =
             (if \<not> df_empty miss_tbl then ToHtml miss_tbl
              else Markup ''<p>No missing values found.</p>''),
           duplicate_table =
             DuplicateTable (get_or (duplicate_rows_count dup) (Num 0))
               (get_or (duplicate_rows_percent dup) (Str ''0%''))
               (y_field y_stats ''duplicate_rows'')
               (y_field y_stats ''duplicate_rows_percent''),
           dup_preview_html =
             (if \<not> df_empty dup_prev_df then ToHtml dup_prev_df
              else Markup ''<p>No duplicate rows found.</p>''),
           merged_table =
             (if \<not> df_empty filtered_df then ToHtml filtered_df
              else Markup ''<p>No outliers found for this category.</p>''),
           selected_filter = selected_filter_of filter_arg,
           outlier_total = get_or (outlier_count out) 0,
           structural_count = length structural_idx,
           statistical_count = length statistical_idx,
           semantic_count = length semantic_idx,
           label_issue_count = get_or (info_label_issue_count labels) (Num 0),
           label_table = (if \<not> df_empty label_df then ToHtml label_df else Markup []),
           label_note = info_note labels,
           y_missing_cells = y_field y_stats ''missing_cells'',
           y_missing_percent = y_field y_stats ''missing_cells_percent'',
           y_dup_rows = y_field y_stats ''duplicate_rows'',
           y_dup_percent = y_field y_stats ''duplicate_rows_percent'',
           detected_target = target,
           df_columns = columns df\<rparr>, session')))))))))))"

section \<open>Frames as objects in a store\<close>

text \<open>
  Whether the route writes into the loaded frame depends on which object each assignment
  reaches. Here a frame variable is a reference into a store; \<^verbatim>\<open>df.loc[...]\<close>,
  \<^verbatim>\<open>.copy()\<close>, \<^verbatim>\<open>pd.concat\<close> and \<^verbatim>\<open>df[mask]\<close> allocate a new object, and
  \<^verbatim>\<open>temp[c] = v\<close> updates the object of \<open>temp\<close> in place.
\<close>

type_synonym ref = nat

record store =
  frames :: "ref \<Rightarrow> dataframe"
  next_ref :: ref

definition new_frame :: "store \<Rightarrow> dataframe \<Rightarrow> ref \<times> store" where
  "new_frame s d =
     (next_ref s, s\<lparr>frames := (frames s)(next_ref s := d), next_ref := Suc (next_ref s)\<rparr>)"

definition st_result :: "store \<Rightarrow> error + dataframe \<Rightarrow> (error + ref) \<times> store" where
  "st_result s r =
     (case r of Inl e \<Rightarrow> (Inl e, s) | Inr d \<Rightarrow> (let (r', s') = new_frame s d in (Inr r', s')))"

definition st_loc :: "store \<Rightarrow> ref \<Rightarrow> nat list \<Rightarrow> (error + ref) \<times> store" where
  "st_loc s df labels = st_result s (loc (frames s df) labels)"

definition st_copy :: "store \<Rightarrow> ref \<Rightarrow> ref \<times> store" where
  "st_copy s df = new_frame s (copy (frames s df))"

definition st_setitem :: "store \<Rightarrow> ref \<Rightarrow> string \<Rightarrow> cell \<Rightarrow> store" where
  "st_setitem s df c v = s\<lparr>frames := (frames s)(df := setitem (frames s df) c v)\<rparr>"

definition st_concat :: "store \<Rightarrow> ref list \<Rightarrow> (error + ref) \<times> store" where
  "st_concat s refs = st_result s (pd_concat (map (frames s) refs))"

definition st_tagged_copy :: "store \<Rightarrow> ref \<Rightarrow> nat list \<Rightarrow> string \<Rightarrow> (error + ref) \<times> store" where
  "st_tagged_copy s df idx tag =
     (case st_loc s df idx of
        (Inl e, s1) \<Rightarrow> (Inl e, s1)
      | (Inr sel, s1) \<Rightarrow>
          (let (temp, s2) = st_copy s1 sel
           in (Inr temp, st_setitem s2 temp ''__outlier_type__'' (Str tag))))"

definition st_append_tagged ::
  "store \<Rightarrow> ref \<Rightarrow> ref list \<Rightarrow> nat list \<Rightarrow> string \<Rightarrow> (error + ref list) \<times> store" where
  "st_append_tagged s df merged_rows idx tag =
     (if idx \<noteq> []
      then (case st_tagged_copy s df idx tag of
              (Inl e, s1) \<Rightarrow> (Inl e, s1)
            | (Inr temp, s1) \<Rightarrow> (Inr (merged_rows @ [temp]), s1))
      else (Inr merged_rows, s))"

definition st_merged_outliers ::
  "store \<Rightarrow> ref \<Rightarrow> nat list \<Rightarrow> nat list \<Rightarrow> nat list \<Rightarrow> (error + ref) \<times> store" where
  "st_merged_outliers s df statistical_idx semantic_idx structural_idx =
     (case st_append_tagged s df [] statistical_idx ''Statistical'' of
        (Inl e, s1) \<Rightarrow> (Inl e, s1)
      | (Inr rows1, s1) \<Rightarrow>
     (case st_append_tagged s1 df rows1 semantic_idx ''AI-Based'' of
        (Inl e, s2) \<Rightarrow> (Inl e, s2)
      | (Inr rows2, s2) \<Rightarrow>
     (case st_append_tagged s2 df rows2 structural_idx ''Structural'' of
        (Inl e, s3) \<Rightarrow> (Inl e, s3)
      | (Inr merged_rows, s3) \<Rightarrow>
          if merged_rows \<noteq> [] then st_concat s3 merged_rows
          else st_result s3 (Inr DataFrame))))"

text \<open>The filter: a selection is a new object, no selection is the merged object itself.\<close>

definition st_filtered :: "store \<Rightarrow> ref \<Rightarrow> string \<Rightarrow> (error + ref) \<times> store" where
  "st_filtered s merged_df sel =
     (if sel = ''statistical''
      then st_result s (select_type (frames s merged_df) ''Statistical'')
      else if sel = ''ai''
      then st_result s (select_type (frames s merged_df) ''AI-Based'')
      else if sel = ''structural''
      then st_result s (select_type (frames s merged_df) ''Structural'')
      else (Inr merged_df, s))"

definition st_outlier_view ::
  "store \<Rightarrow> ref \<Rightarrow> nat list \<Rightarrow> nat list \<Rightarrow> nat list \<Rightarrow> string option
     \<Rightarrow> (error + ref) \<times> store" where
  "st_outlier_view s df statistical_idx semantic_idx structural_idx filter_arg =
     (case st_merged_outliers s df statistical_idx semantic_idx structural_idx of
        (Inl e, s1) \<Rightarrow> (Inl e, s1)
      | (Inr merged_df, s1) \<Rightarrow> st_filtered s1 merged_df (selected_filter_of filter_arg))"

section \<open>Notions used in the statements\<close>

text \<open>
  A frame as the data model describes it and as the loader returns it: column names are
  unique, the rows are labelled 0, 1, ... in order, and every row has one cell per column.
\<close>

definition well_formed :: "dataframe \<Rightarrow> bool" where
  "well_formed df =
     (distinct (columns df) \<and> index df = [0..<length (rows df)] \<and>
      list_all (\<lambda>r. length r = length (columns df)) (rows df))"

text \<open>
  The columns and a row of a tagged copy, as \<open>setitem\<close> leaves them: row \<open>i\<close> of the
  frame with its \<^verbatim>\<open>__outlier_type__\<close> cell set to the tag.
\<close>

definition tag_columns :: "string list \<Rightarrow> string list" where
  "tag_columns cols = (if ''__outlier_type__'' \<in> set cols then cols else cols @ [''__outlier_type__''])"

definition tag_row :: "dataframe \<Rightarrow> string \<Rightarrow> nat \<Rightarrow> cell list" where
  "tag_row df tag i = set_cell (columns df) ''__outlier_type__'' (Str tag) (rows df ! i)"

definition tagged_frame :: "dataframe \<Rightarrow> nat list \<Rightarrow> string \<Rightarrow> dataframe" where
  "tagged_frame df idx tag =
     \<lparr>columns = tag_columns (columns df), index = idx, rows = map (tag_row df tag) idx\<rparr>"

text \<open>
  The tagged sequence in the words of the specification: each row index once per method
  that flagged it, with the label of the method.
\<close>

definition tagged_sequence :: "nat list \<Rightarrow> nat list \<Rightarrow> nat list \<Rightarrow> (nat \<times> string) list" where
  "tagged_sequence statistical semantic structural =
     map (\<lambda>i. (i, ''Statistical'')) statistical @
     map (\<lambda>i. (i, ''AI-Based'')) semantic @
     map (\<lambda>i. (i, ''Structural'')) structural"

text \<open>How often a method with index list \<open>idx\<close> flagged row \<open>i\<close>: once or not at all.\<close>

definition flagged_by :: "nat list \<Rightarrow> nat \<Rightarrow> nat" where
  "flagged_by idx i = (if i \<in> set idx then 1 else 0)"

text \<open>A row of the merged table carries the tag.\<close>

definition has_tag :: "dataframe \<Rightarrow> string \<Rightarrow> cell list \<Rightarrow> bool" where
  "has_tag m tag r = (cell_at (columns m) r ''__outlier_type__'' = Str tag)"

text \<open>
  The store \<open>s'\<close> extends \<open>s\<close>: every object that existed in \<open>s\<close> is the same in \<open>s'\<close>.
\<close>

definition unchanged_below :: "store \<Rightarrow> store \<Rightarrow> bool" where
  "unchanged_below s s' =
     (next_ref s \<le> next_ref s' \<and> (\<forall>r<next_ref s. frames s' r = frames s r))"

text \<open>
  Modelled from the spec: \<^verbatim>\<open>detect_outliers\<close> of module \<^verbatim>\<open>quality\<close> is not in the
  source at hand. Section 4.3 of the specification: three detectors run over the same
  dataset, each returns a set of row indices, and the output is the three index sets plus
  a derived total, the size of the union of all three sets. The arguments are the row
  indices each detector flagged; a set is kept as a list without repetitions.
\<close>

definition detect_outliers_spec :: "nat list \<Rightarrow> nat list \<Rightarrow> nat list \<Rightarrow> out_tbl" where
  "detect_outliers_spec structural statistical semantic =
     \<lparr>structural_indices = Some (remdups structural),
      statistical_indices = Some (remdups statistical),
      semantic_indices = Some (remdups semantic),
      outlier_count = Some (length (remdups (structural @ statistical @ semantic)))\<rparr>"

section \<open>Example inputs\<close>

definition ex_df :: dataframe where
  "ex_df = \<lparr>columns = [''age'', ''label''], index = [0, 1, 2],
            rows = [[Num 25, Num 0], [Num 26, Num 1], [Num 1000, Num 1]]\<rparr>"

text \<open>A CSV file that is not valid UTF-8, and an empty workbook.\<close>

definition ex_readers :: readers where
  "ex_readers =
     \<lparr>read_excel = (\<lambda>p. Inr DataFrame),
      read_csv = (\<lambda>p enc. case enc of UTF8 \<Rightarrow> Inl UnicodeDecodeError | Latin1 \<Rightarrow> Inr ex_df)\<rparr>"

definition ex_merged :: dataframe where
  "ex_merged =
     \<lparr>columns = [''age'', ''__outlier_type__''], index = [0, 1],
      rows = [[Num 1000, Str ''Statistical''], [Num 25, Str ''AI-Based'']]\<rparr>"

text \<open>A store that holds the loaded frame as object 0.\<close>

definition ex_store :: store where
  "ex_store = \<lparr>frames = (\<lambda>r. if r = 0 then ex_df else DataFrame), next_ref = 1\<rparr>"

text \<open>
  A dataset record without a profile, the functions of module \<^verbatim>\<open>quality\<close> with a given
  outlier result, and a session that holds a manual target for dataset 7.
\<close>

definition ex_dataset :: dataset where
  "ex_dataset =
     \<lparr>dataset_id = 7, user_id = 1, filename = ''1_20240101_120000_data.csv'',
      original_filename = ''data.csv'', profile_generated = False, profile_path = None\<rparr>"

definition ex_db :: "nat \<rightharpoonup> dataset" where
  "ex_db = Map.empty(7 \<mapsto> ex_dataset)"

definition ex_quality :: "out_tbl \<Rightarrow> quality" where
  "ex_quality out =
     \<lparr>detect_missing = (\<lambda>df. Inr DataFrame),
      detect_duplicates = (\<lambda>df. Inr \<lparr>preview = Some DataFrame,
         duplicate_rows_count = Some (Num 0), duplicate_rows_percent = Some (Str ''0.0%'')\<rparr>),
      detect_outliers = (\<lambda>df. Inr out),
      detect_label_issues = (\<lambda>df target. Inr \<lparr>info_label_issue_count = Some (Num 0),
         info_note = None, info_preview = Some DataFrame\<rparr>),
      extract_ydata_overview_stats = (\<lambda>path. Inr (Some [(''missing_cells'', Num 3)])),
      auto_detect_target_column = (\<lambda>df. Inr (Some ''label''))\<rparr>"

definition ex_session :: "string \<Rightarrow> session" where
  "ex_session m = Map.empty(session_key 7 \<mapsto> m)"

definition ex_failing_quality :: quality where
  "ex_failing_quality =
     (ex_quality (detect_outliers_spec [] [] []))
       \<lparr>auto_detect_target_column := (\<lambda>df. Inl (OtherError ''scoring''))\<rparr>"

text \<open>The same dataset with a generated profile report.\<close>

definition ex_profiled :: dataset where
  "ex_profiled = ex_dataset\<lparr>profile_generated := True, profile_path := Some ''profile_7.html''\<rparr>"

section \<open>The loader\<close>

lemma last_rsplit_dot:
  "last (rsplit_dot s) = rev (takeWhile (\<lambda>c. c \<noteq> CHR ''.'') (rev s))"
proof (cases "CHR ''.'' \<in> set s")
  case True
  then show ?thesis by (simp add: rsplit_dot_def Let_def)
next
  case False
  then have tw: "takeWhile (\<lambda>c. c \<noteq> CHR ''.'') (rev s) = rev s"
    by auto
  show ?thesis using False by (simp add: rsplit_dot_def Let_def tw)
qed

text \<open>
  Claim C6. The extension is what the loader computes: the text after the last dot of
  the lower-cased original name (the whole name when it has no dot). With extension
  \<open>xlsx\<close> or \<open>xls\<close> the result is that of the Excel reader; with \<open>csv\<close> it is the
  result of the UTF-8 read, unless that read raised \<^verbatim>\<open>UnicodeDecodeError\<close>, in which case
  it is the result of the Latin-1 read; with any other extension the loader raises
  \<^verbatim>\<open>ValueError\<close> (unsupported extension) and returns no frame.
\<close>

theorem load_df_by_extension:
  "(last (rsplit_dot (lower name)) = ''xlsx'' \<or> last (rsplit_dot (lower name)) = ''xls'' \<longrightarrow>
      load_df pd filepath name = read_excel pd filepath) \<and>
   (last (rsplit_dot (lower name)) = ''csv'' \<longrightarrow>
      load_df pd filepath name =
        (if read_csv pd filepath UTF8 = Inl UnicodeDecodeError
         then read_csv pd filepath Latin1 else read_csv pd filepath UTF8)) \<and>
   (last (rsplit_dot (lower name)) \<noteq> ''xlsx'' \<and> last (rsplit_dot (lower name)) \<noteq> ''xls'' \<and>
    last (rsplit_dot (lower name)) \<noteq> ''csv'' \<longrightarrow>
      load_df pd filepath name =
        Inl (ValueError (''Unsupported file extension: '' @ last (rsplit_dot (lower name)))))"
  unfolding load_df_def Let_def
  by (auto split: sum.splits error.splits)

theorem load_df_by_extension_witness:
  "load_df ex_readers ''uploads/1_a.csv'' ''Data.CSV'' = Inr ex_df \<and>
   load_df ex_readers ''uploads/1_a.xls'' ''a.b.XLS'' = Inr DataFrame \<and>
   load_df ex_readers ''uploads/1_a.txt'' ''notes.txt'' =
     Inl (ValueError ''Unsupported file extension: txt'')"
  using load_df_by_extension [of "''Data.CSV''" ex_readers "''uploads/1_a.csv''"]
    load_df_by_extension [of "''a.b.XLS''" ex_readers "''uploads/1_a.xls''"]
    load_df_by_extension [of "''notes.txt''" ex_readers "''uploads/1_a.txt''"]
  by (simp add: lower_def lower_char_def rsplit_dot_def ex_readers_def)

section \<open>Selecting, tagging and concatenating rows\<close>

lemma filter_label_upt:
  "filter (\<lambda>p. fst p = i) (zip [0..<length rs] rs) = (if i < length rs then [(i, rs ! i)] else [])"
  by (induction rs rule: rev_induct) (auto simp: nth_append)

lemma loc_well_formed:
  assumes "well_formed df" and "\<forall>i\<in>set labels. i < length (rows df)"
  shows "loc df labels =
           Inr \<lparr>columns = columns df, index = labels, rows = map (\<lambda>i. rows df ! i) labels\<rparr>"
proof -
  have idx: "index df = [0..<length (rows df)]"
    using assms(1) by (simp add: well_formed_def)
  have ok: "list_all (\<lambda>i. i \<in> set (index df)) labels"
    using assms(2) by (simp add: idx list_all_iff)
  have hits: "concat (map (\<lambda>i. filter (\<lambda>p. fst p = i) (zip (index df) (rows df))) labels)
                = map (\<lambda>i. (i, rows df ! i)) labels"
    using assms(2) by (induction labels) (simp_all add: idx filter_label_upt)
  show ?thesis
    by (simp add: loc_def ok hits Let_def comp_def)
qed

lemma tagged_copy_well_formed:
  assumes "well_formed df" and "\<forall>i\<in>set idx. i < length (rows df)"
  shows "tagged_copy df idx tag =
           Inr \<lparr>columns = tag_columns (columns df), index = idx, rows = map (tag_row df tag) idx\<rparr>"
  by (simp add: tagged_copy_def loc_well_formed [OF assms] bind_err_def copy_def setitem_def
      tag_columns_def tag_row_def comp_def)

lemma remdups_append_subset: "set xs \<subseteq> set ys \<Longrightarrow> remdups (xs @ ys) = remdups ys"
  by (induction xs) auto

lemma cell_at_row:
  assumes "distinct cols" and "length r = length cols"
  shows "map (cell_at cols r) cols = r"
proof (rule nth_equalityI)
  show "length (map (cell_at cols r) cols) = length r" using assms by simp
next
  fix i assume "i < length (map (cell_at cols r) cols)"
  then have i: "i < length cols" by simp
  then have "map_of (zip cols r) (cols ! i) = Some (r ! i)"
    using assms by (simp add: map_of_zip_nth)
  then show "map (cell_at cols r) cols ! i = r ! i"
    using i by (simp add: cell_at_def)
qed

lemma union_columns_same:
  assumes "fs \<noteq> []" and "\<forall>f\<in>set fs. columns f = cols" and "distinct cols"
  shows "rev (remdups (rev (concat (map columns fs)))) = cols"
  using assms
proof (induction fs)
  case Nil
  then show ?case by simp
next
  case (Cons f fs)
  have sub: "set (rev (concat (map columns fs))) \<subseteq> set (rev cols)"
    using Cons.prems(2) by auto
  have "rev (concat (map columns (f # fs))) = rev (concat (map columns fs)) @ rev cols"
    using Cons.prems(2) by simp
  then have "remdups (rev (concat (map columns (f # fs)))) = remdups (rev cols)"
    using remdups_append_subset [OF sub] by simp
  then show ?case using Cons.prems(2,3) by (simp add: distinct_remdups_id)
qed

lemma pd_concat_same_columns:
  assumes "fs \<noteq> []" and "\<forall>f\<in>set fs. columns f = cols" and "distinct cols"
    and "\<forall>f\<in>set fs. \<forall>r\<in>set (rows f). length r = length cols"
  shows "pd_concat fs =
           Inr \<lparr>columns = cols, index = [0..<length (concat (map rows fs))],
                rows = concat (map rows fs)\<rparr>"
proof -
  have "concat (map (\<lambda>f. map (\<lambda>r. map (cell_at (columns f) r) cols) (rows f)) fs)
          = concat (map rows fs)"
    using assms(2,4)
  proof (induction fs)
    case Nil
    then show ?case by simp
  next
    case (Cons f fs)
    have "map (\<lambda>r. map (cell_at (columns f) r) cols) (rows f) = rows f"
      using Cons.prems assms(3) by (auto intro!: map_idI cell_at_row)
    then show ?case using Cons by simp
  qed
  then show ?thesis
    using assms(1) by (simp add: pd_concat_def Let_def union_columns_same [OF assms(1,2,3)])
qed

lemma append_tagged_well_formed:
  assumes "well_formed df" and "\<forall>i\<in>set idx. i < length (rows df)"
  shows "append_tagged df ms idx tag =
           Inr (ms @ (if idx = [] then [] else [tagged_frame df idx tag]))"
  by (simp add: append_tagged_def tagged_copy_well_formed [OF assms] bind_err_def
      tagged_frame_def)

lemma distinct_tag_columns: "distinct cols \<Longrightarrow> distinct (tag_columns cols)"
  by (simp add: tag_columns_def)

lemma length_tag_row:
  assumes "well_formed df" and "i < length (rows df)"
  shows "length (tag_row df tag i) = length (tag_columns (columns df))"
proof -
  have "length (rows df ! i) = length (columns df)"
    using assms by (simp add: well_formed_def list_all_length)
  then show ?thesis
    by (simp add: tag_row_def set_cell_def tag_columns_def)
qed

lemma merged_outliers_well_formed:
  assumes wf: "well_formed df"
    and a: "\<forall>i\<in>set a. i < length (rows df)"
    and b: "\<forall>i\<in>set b. i < length (rows df)"
    and c: "\<forall>i\<in>set c. i < length (rows df)"
  shows "merged_outliers df a b c =
           Inr (if a = [] \<and> b = [] \<and> c = [] then DataFrame
                else \<lparr>columns = tag_columns (columns df),
                      index = [0..<length a + length b + length c],
                      rows = map (tag_row df ''Statistical'') a @
                             map (tag_row df ''AI-Based'') b @
                             map (tag_row df ''Structural'') c\<rparr>)"
proof -
  define ms where "ms =
    (if a = [] then [] else [tagged_frame df a ''Statistical'']) @
    (if b = [] then [] else [tagged_frame df b ''AI-Based'']) @
    (if c = [] then [] else [tagged_frame df c ''Structural''])"
  have m: "merged_outliers df a b c = (if ms \<noteq> [] then pd_concat ms else Inr DataFrame)"
    by (simp add: merged_outliers_def append_tagged_well_formed [OF wf a]
        append_tagged_well_formed [OF wf b] append_tagged_well_formed [OF wf c]
        bind_err_def ms_def)
  have cols: "\<forall>f\<in>set ms. columns f = tag_columns (columns df)"
    by (auto simp: ms_def tagged_frame_def split: if_splits)
  have lens: "\<forall>f\<in>set ms. \<forall>r\<in>set (rows f). length r = length (tag_columns (columns df))"
    using a b c by (auto simp: ms_def tagged_frame_def length_tag_row [OF wf] split: if_splits)
  have dist: "distinct (tag_columns (columns df))"
    using wf by (simp add: well_formed_def distinct_tag_columns)
  have rs: "concat (map rows ms) =
              map (tag_row df ''Statistical'') a @ map (tag_row df ''AI-Based'') b @
              map (tag_row df ''Structural'') c"
    by (simp add: ms_def tagged_frame_def)
  have empty: "ms = [] \<longleftrightarrow> a = [] \<and> b = [] \<and> c = []"
    by (simp add: ms_def)
  show ?thesis
  proof (cases "ms = []")
    case True
    then show ?thesis using m empty by simp
  next
    case False
    then have ne: "\<not> (a = [] \<and> b = [] \<and> c = [])" using empty by simp
    have "merged_outliers df a b c = pd_concat ms" using m False by simp
    then show ?thesis
      unfolding if_not_P [OF ne]
      by (simp add: pd_concat_same_columns [OF False cols dist lens] rs add.assoc)
  qed
qed

lemma count_list_tagged:
  "count_list (map (\<lambda>i. (i, t)) xs) (j, t') = (if t = t' then count_list xs j else 0)"
  by (induction xs) auto

lemma count_list_distinct: "distinct xs \<Longrightarrow> count_list xs x = (if x \<in> set xs then 1 else 0)"
  by (induction xs) auto

lemma length_filter_fst_tagged:
  "length (filter (\<lambda>p. fst p = j) (map (\<lambda>i. (i, t)) xs)) = count_list xs j"
  by (induction xs) auto

lemma tag_cell_of_tag_row:
  assumes "well_formed df" and "i < length (rows df)"
  shows "cell_at (tag_columns (columns df)) (tag_row df tag i) ''__outlier_type__'' = Str tag"
proof -
  let ?T = "''__outlier_type__''"
  let ?cols = "columns df"
  let ?r = "rows df ! i"
  have len: "length ?r = length ?cols"
    using assms by (simp add: well_formed_def list_all_length)
  have dist: "distinct ?cols"
    using assms(1) by (simp add: well_formed_def)
  show ?thesis
  proof (cases "?T \<in> set ?cols")
    case True
    then obtain k where k: "k < length ?cols" "?cols ! k = ?T"
      by (auto simp: in_set_conv_nth)
    let ?r' = "map (\<lambda>(n, x). if n = ?T then Str tag else x) (zip ?cols ?r)"
    have "map_of (zip ?cols ?r') (?cols ! k) = Some (?r' ! k)"
      using k len dist by (intro map_of_zip_nth) simp_all
    moreover have "?r' ! k = Str tag"
      using k len by simp
    ultimately show ?thesis
      using True k by (simp add: cell_at_def tag_columns_def tag_row_def set_cell_def)
  next
    case False
    then have none: "map_of (zip ?cols ?r) ?T = None"
      by (metis map_of_zip_is_None len)
    show ?thesis
      using False len
      by (simp add: cell_at_def tag_columns_def tag_row_def set_cell_def map_add_def none)
  qed
qed

lemma ex_df_well_formed: "well_formed ex_df"
  by (simp add: well_formed_def ex_df_def upt_rec)

section \<open>The merged outlier table\<close>

text \<open>
  Claim C2. For a well-formed frame and index lists of existing, pairwise different rows,
  the merge succeeds and its rows are, position by position, the rows named by the tagged
  sequence of the specification, each carrying the label of its method in the column
  \<^verbatim>\<open>__outlier_type__\<close>. In that sequence a pair of row index and label occurs once if
  the method flagged the row and not at all otherwise, so a row index occurs once per
  method that flagged it.
\<close>

theorem merged_is_tagged_sequence:
  assumes "well_formed df"
    and "\<forall>i\<in>set statistical_idx. i < length (rows df)"
    and "\<forall>i\<in>set semantic_idx. i < length (rows df)"
    and "\<forall>i\<in>set structural_idx. i < length (rows df)"
    and "distinct statistical_idx" and "distinct semantic_idx" and "distinct structural_idx"
  defines "seq \<equiv> tagged_sequence statistical_idx semantic_idx structural_idx"
  shows "\<exists>merged_df.
           merged_outliers df statistical_idx semantic_idx structural_idx = Inr merged_df \<and>
           rows merged_df = map (\<lambda>(i, tag). tag_row df tag i) seq \<and>
           (\<forall>k<length seq.
              cell_at (columns merged_df) (rows merged_df ! k) ''__outlier_type__''
                = Str (snd (seq ! k))) \<and>
           count_list seq (i, ''Statistical'') = flagged_by statistical_idx i \<and>
           count_list seq (i, ''AI-Based'') = flagged_by semantic_idx i \<and>
           count_list seq (i, ''Structural'') = flagged_by structural_idx i \<and>
           length (filter (\<lambda>p. fst p = i) seq)
             = flagged_by statistical_idx i + flagged_by semantic_idx i
               + flagged_by structural_idx i"
proof -
  let ?a = statistical_idx and ?b = semantic_idx and ?c = structural_idx
  let ?m = "if ?a = [] \<and> ?b = [] \<and> ?c = [] then DataFrame
            else \<lparr>columns = tag_columns (columns df),
                  index = [0..<length ?a + length ?b + length ?c],
                  rows = map (tag_row df ''Statistical'') ?a @
                         map (tag_row df ''AI-Based'') ?b @
                         map (tag_row df ''Structural'') ?c\<rparr>"
  have m: "merged_outliers df ?a ?b ?c = Inr ?m"
    by (rule merged_outliers_well_formed [OF assms(1-4)])
  have rs: "rows ?m = map (\<lambda>(i, tag). tag_row df tag i) seq"
    by (simp add: seq_def tagged_sequence_def DataFrame_def comp_def)
  have valid: "\<forall>p\<in>set seq. fst p < length (rows df)"
    using assms(2-4) by (auto simp: seq_def tagged_sequence_def)
  have tags: "cell_at (columns ?m) (rows ?m ! k) ''__outlier_type__'' = Str (snd (seq ! k))"
    if k: "k < length seq" for k
  proof -
    have ne: "\<not> (?a = [] \<and> ?b = [] \<and> ?c = [])"
      using k by (auto simp: seq_def tagged_sequence_def)
    have cols: "columns ?m = tag_columns (columns df)"
      using ne by auto
    have row: "rows ?m ! k = tag_row df (snd (seq ! k)) (fst (seq ! k))"
      using k by (simp only: rs) (simp add: case_prod_beta)
    have "fst (seq ! k) < length (rows df)"
      using valid k by simp
    then show ?thesis
      by (simp only: cols row tag_cell_of_tag_row [OF assms(1)])
  qed
  have c1: "count_list seq (i, ''Statistical'') = flagged_by ?a i"
    using assms(5) by (simp add: seq_def tagged_sequence_def count_list_tagged
        count_list_distinct flagged_by_def)
  have c2: "count_list seq (i, ''AI-Based'') = flagged_by ?b i"
    using assms(6) by (simp add: seq_def tagged_sequence_def count_list_tagged
        count_list_distinct flagged_by_def)
  have c3: "count_list seq (i, ''Structural'') = flagged_by ?c i"
    using assms(7) by (simp add: seq_def tagged_sequence_def count_list_tagged
        count_list_distinct flagged_by_def)
  have c4: "length (filter (\<lambda>p. fst p = i) seq)
              = flagged_by ?a i + flagged_by ?b i + flagged_by ?c i"
    unfolding seq_def tagged_sequence_def filter_append length_append length_filter_fst_tagged
    using assms(5-7) by (simp add: count_list_distinct flagged_by_def)
  show ?thesis
    using m rs tags c1 c2 c3 c4 by blast
qed

theorem merged_is_tagged_sequence_witness:
  "\<exists>merged_df.
     merged_outliers ex_df [2] [2, 0] [] = Inr merged_df \<and>
     rows merged_df =
       [[Num 1000, Num 1, Str ''Statistical''], [Num 1000, Num 1, Str ''AI-Based''],
        [Num 25, Num 0, Str ''AI-Based'']] \<and>
     count_list (tagged_sequence [2] [2, 0] []) (2, ''AI-Based'') = 1 \<and>
     length (filter (\<lambda>p. fst p = 2) (tagged_sequence [2] [2, 0] [])) = 2"
  using merged_is_tagged_sequence [OF ex_df_well_formed, of "[2]" "[2, 0]" "[]" 2]
  by (auto simp add: ex_df_def tagged_sequence_def tag_row_def set_cell_def flagged_by_def)

text \<open>
  Claim C10. For a well-formed frame and index lists of existing rows, the unfiltered
  merged table is the rows of the statistical list, then those of the semantic list, then
  those of the structural list, each group in the order of its index list, and every row
  of a group carries the label of its method: \<open>Statistical\<close>, then \<open>AI-Based\<close>, then
  \<open>Structural\<close>.
\<close>

theorem merged_grouped_by_method:
  assumes "well_formed df"
    and "\<forall>i\<in>set statistical_idx. i < length (rows df)"
    and "\<forall>i\<in>set semantic_idx. i < length (rows df)"
    and "\<forall>i\<in>set structural_idx. i < length (rows df)"
  shows "\<exists>merged_df.
           merged_outliers df statistical_idx semantic_idx structural_idx = Inr merged_df \<and>
           filtered merged_df (selected_filter_of None) = Inr merged_df \<and>
           rows merged_df =
             map (tag_row df ''Statistical'') statistical_idx @
             map (tag_row df ''AI-Based'') semantic_idx @
             map (tag_row df ''Structural'') structural_idx \<and>
           (\<forall>i\<in>set statistical_idx. has_tag merged_df ''Statistical'' (tag_row df ''Statistical'' i)) \<and>
           (\<forall>i\<in>set semantic_idx. has_tag merged_df ''AI-Based'' (tag_row df ''AI-Based'' i)) \<and>
           (\<forall>i\<in>set structural_idx. has_tag merged_df ''Structural'' (tag_row df ''Structural'' i))"
proof -
  have all: "filtered m (selected_filter_of None) = Inr m" for m
    by (simp add: filtered_def selected_filter_of_def lower_def lower_char_def)
  show ?thesis
  proof (cases "statistical_idx = [] \<and> semantic_idx = [] \<and> structural_idx = []")
    case True
    then show ?thesis
      using merged_outliers_well_formed [OF assms] by (simp add: DataFrame_def all)
  next
    case False
    have m: "merged_outliers df statistical_idx semantic_idx structural_idx =
          Inr \<lparr>columns = tag_columns (columns df),
               index = [0..<length statistical_idx + length semantic_idx + length structural_idx],
               rows = map (tag_row df ''Statistical'') statistical_idx @
                      map (tag_row df ''AI-Based'') semantic_idx @
                      map (tag_row df ''Structural'') structural_idx\<rparr>"
      using merged_outliers_well_formed [OF assms] unfolding if_not_P [OF False] .
    show ?thesis
      using assms(2-4) by (simp add: m all has_tag_def tag_cell_of_tag_row [OF assms(1)])
  qed
qed

theorem merged_grouped_by_method_witness:
  "\<exists>merged_df.
     merged_outliers ex_df [2] [0, 2] [1] = Inr merged_df \<and>
     rows merged_df =
       [[Num 1000, Num 1, Str ''Statistical''],
        [Num 25, Num 0, Str ''AI-Based''], [Num 1000, Num 1, Str ''AI-Based''],
        [Num 26, Num 1, Str ''Structural'']]"
  using merged_grouped_by_method [OF ex_df_well_formed, of "[2]" "[0, 2]" "[1]"]
  by (auto simp add: ex_df_def tag_row_def set_cell_def)

section \<open>The filter\<close>

lemma getitem_mask_rows:
  assumes "length (index df) = length (rows df)"
  shows "rows (getitem_mask df (map P (rows df))) = filter P (rows df)"
proof -
  have "map snd (map snd (filter fst (zip (map P rs) (zip ix rs)))) = filter P rs"
    if "length ix = length rs" for ix :: "nat list" and rs :: "cell list list"
    using that by (induction ix rs rule: list_induct2) auto
  then show ?thesis
    using assms by (simp add: getitem_mask_def Let_def)
qed

lemma select_type_rows:
  assumes "''__outlier_type__'' \<in> set (columns m)" and "length (index m) = length (rows m)"
  shows "\<exists>f. select_type m tag = Inr f \<and> columns f = columns m \<and>
              rows f = filter (has_tag m tag) (rows m)"
proof -
  let ?P = "has_tag m tag"
  have P: "?P = (\<lambda>r. cell_at (columns m) r ''__outlier_type__'' = Str tag)"
    by (simp add: fun_eq_iff has_tag_def)
  have "select_type m tag = Inr (getitem_mask m (map ?P (rows m)))"
    using assms(1) by (simp add: select_type_def getitem_def bind_err_def comp_def P)
  moreover have "columns (getitem_mask m (map ?P (rows m))) = columns m"
    by (simp add: getitem_mask_def Let_def)
  ultimately show ?thesis
    using getitem_mask_rows [OF assms(2), of ?P] by simp
qed

text \<open>
  Claim C5, as amended. The selector is compared after lower-casing, and the merged
  table is one that has the tag column (the route built it from at least one flagged
  row). A selector that lower-cases to \<open>statistical\<close>, \<open>ai\<close> or \<open>structural\<close> keeps
  exactly the rows tagged \<open>Statistical\<close>, \<open>AI-Based\<close> or \<open>Structural\<close>, in their
  order and under the same columns; every other selector, and an absent one, gives the
  merged table itself.
\<close>

theorem filtered_by_lowered_selector:
  assumes "''__outlier_type__'' \<in> set (columns m)" and "length (index m) = length (rows m)"
  shows "(lower sel = ''statistical'' \<longrightarrow>
            (\<exists>f. filtered m (selected_filter_of (Some sel)) = Inr f \<and>
                 columns f = columns m \<and> rows f = filter (has_tag m ''Statistical'') (rows m))) \<and>
         (lower sel = ''ai'' \<longrightarrow>
            (\<exists>f. filtered m (selected_filter_of (Some sel)) = Inr f \<and>
                 columns f = columns m \<and> rows f = filter (has_tag m ''AI-Based'') (rows m))) \<and>
         (lower sel = ''structural'' \<longrightarrow>
            (\<exists>f. filtered m (selected_filter_of (Some sel)) = Inr f \<and>
                 columns f = columns m \<and> rows f = filter (has_tag m ''Structural'') (rows m))) \<and>
         (lower sel \<noteq> ''statistical'' \<and> lower sel \<noteq> ''ai'' \<and> lower sel \<noteq> ''structural'' \<longrightarrow>
            filtered m (selected_filter_of (Some sel)) = Inr m) \<and>
         filtered m (selected_filter_of None) = Inr m"
proof -
  have none: "filtered m (selected_filter_of None) = Inr m"
    by (simp add: filtered_def selected_filter_of_def lower_def lower_char_def)
  show ?thesis
    using select_type_rows [OF assms, of "''Statistical''"]
      select_type_rows [OF assms, of "''AI-Based''"]
      select_type_rows [OF assms, of "''Structural''"] none
    by (simp add: filtered_def selected_filter_of_def)
qed

theorem filtered_by_lowered_selector_witness:
  "\<exists>f. filtered ex_merged (selected_filter_of (Some ''AI'')) = Inr f \<and>
       columns f = columns ex_merged \<and> rows f = [[Num 25, Str ''AI-Based'']]"
  using filtered_by_lowered_selector [of ex_merged "''AI''"]
  by (simp add: ex_merged_def lower_def lower_char_def has_tag_def cell_at_def)

text \<open>
  Claim C5 as stated fails: the selector \<open>Statistical\<close> is none of \<open>statistical\<close>,
  \<open>ai\<close>, \<open>structural\<close>, yet it does not give the whole table.
\<close>

theorem filtered_other_selector_counterexample:
  "''Statistical'' \<noteq> ''statistical'' \<and> ''Statistical'' \<noteq> ''ai'' \<and>
   ''Statistical'' \<noteq> ''structural'' \<and>
   filtered ex_merged (selected_filter_of (Some ''Statistical'')) \<noteq> Inr ex_merged"
  by (simp add: filtered_def selected_filter_of_def lower_def lower_char_def select_type_def
      getitem_def bind_err_def getitem_mask_def cell_at_def ex_merged_def)

section \<open>The loaded frame is not written\<close>

lemma unchanged_below_refl: "unchanged_below s s"
  by (simp add: unchanged_below_def)

lemma unchanged_below_trans:
  "unchanged_below s s' \<Longrightarrow> unchanged_below s' s'' \<Longrightarrow> unchanged_below s s''"
  by (auto simp: unchanged_below_def)

lemma unchanged_below_map:
  "unchanged_below s s' \<Longrightarrow> \<forall>r\<in>set refs. r < next_ref s \<Longrightarrow> map (frames s') refs = map (frames s) refs"
  by (simp add: unchanged_below_def)

lemma st_result_sim:
  "case st_result s x of
     (Inl e, s') \<Rightarrow> x = Inl e \<and> s' = s
   | (Inr r, s') \<Rightarrow> x = Inr (frames s' r) \<and> unchanged_below s s' \<and> r < next_ref s'"
  by (cases x) (simp_all add: st_result_def new_frame_def unchanged_below_def)

lemma st_tagged_copy_sim:
  "case st_tagged_copy s df idx tag of
     (Inl e, s') \<Rightarrow> tagged_copy (frames s df) idx tag = Inl e \<and> s' = s
   | (Inr r, s') \<Rightarrow>
       tagged_copy (frames s df) idx tag = Inr (frames s' r) \<and> unchanged_below s s' \<and>
       r < next_ref s'"
  by (cases "loc (frames s df) idx")
    (simp_all add: st_tagged_copy_def st_loc_def st_result_def st_copy_def st_setitem_def
      new_frame_def tagged_copy_def bind_err_def copy_def unchanged_below_def)


lemma st_append_tagged_sim:
  assumes "\<forall>r\<in>set ms. r < next_ref s"
  shows "case st_append_tagged s df ms idx tag of
     (Inl e, s') \<Rightarrow> append_tagged (frames s df) (map (frames s) ms) idx tag = Inl e \<and> s' = s
   | (Inr ms', s') \<Rightarrow>
       append_tagged (frames s df) (map (frames s) ms) idx tag = Inr (map (frames s') ms') \<and>
       unchanged_below s s' \<and> (\<forall>r\<in>set ms'. r < next_ref s')"
proof (cases "idx = []")
  case True
  then show ?thesis
    using assms by (simp add: st_append_tagged_def append_tagged_def unchanged_below_refl)
next
  case False
  show ?thesis
  proof (cases "st_tagged_copy s df idx tag")
    case (Pair res s')
    show ?thesis
    proof (cases res)
      case (Inl e)
      then show ?thesis
        using st_tagged_copy_sim [of s df idx tag] Pair False
        by (simp add: st_append_tagged_def append_tagged_def bind_err_def)
    next
      case (Inr r)
      then have t: "tagged_copy (frames s df) idx tag = Inr (frames s' r)"
        and u: "unchanged_below s s'" and r: "r < next_ref s'"
        using st_tagged_copy_sim [of s df idx tag] Pair by simp_all
      have old: "\<forall>x\<in>set ms. x < next_ref s'"
        using assms u by (auto simp: unchanged_below_def)
      show ?thesis
        using Pair Inr False t u r old unchanged_below_map [OF u assms]
        by (simp add: st_append_tagged_def append_tagged_def bind_err_def)
    qed
  qed
qed

lemma st_merged_outliers_sim:
  "case st_merged_outliers s df a b c of
     (Inl e, s') \<Rightarrow> merged_outliers (frames s df) a b c = Inl e \<and> unchanged_below s s'
   | (Inr r, s') \<Rightarrow>
       merged_outliers (frames s df) a b c = Inr (frames s' r) \<and> unchanged_below s s' \<and>
       r < next_ref s'"
  if df: "df < next_ref s"
proof -
  obtain x1 s1 where p1: "st_append_tagged s df [] a ''Statistical'' = (x1, s1)"
    by (cases "st_append_tagged s df [] a ''Statistical''")
  show ?thesis
  proof (cases x1)
    case (Inl e)
    then show ?thesis
      using st_append_tagged_sim [of "[]" s df a "''Statistical''"] p1
      by (simp add: st_merged_outliers_def merged_outliers_def bind_err_def unchanged_below_refl)
  next
    case (Inr rows1)
    then have a1: "append_tagged (frames s df) [] a ''Statistical'' = Inr (map (frames s1) rows1)"
      and u1: "unchanged_below s s1" and r1: "\<forall>r\<in>set rows1. r < next_ref s1"
      using st_append_tagged_sim [of "[]" s df a "''Statistical''"] p1 by simp_all
    have df1: "frames s1 df = frames s df"
      using u1 df by (simp add: unchanged_below_def)
    obtain x2 s2 where p2: "st_append_tagged s1 df rows1 b ''AI-Based'' = (x2, s2)"
      by (cases "st_append_tagged s1 df rows1 b ''AI-Based''")
    show ?thesis
    proof (cases x2)
      case (Inl e)
      then show ?thesis
        using st_append_tagged_sim [OF r1, of df b "''AI-Based''"] p1 p2 Inr a1 u1 df1
        by (simp add: st_merged_outliers_def merged_outliers_def bind_err_def)
    next
      case (Inr rows2) note Inr2 = this
      then have a2: "append_tagged (frames s df) (map (frames s1) rows1) b ''AI-Based''
                       = Inr (map (frames s2) rows2)"
        and u2: "unchanged_below s1 s2" and r2: "\<forall>r\<in>set rows2. r < next_ref s2"
        using st_append_tagged_sim [OF r1, of df b "''AI-Based''"] p2 df1 by simp_all
      have df2: "frames s2 df = frames s df"
        using u1 u2 df by (simp add: unchanged_below_def)
      have u02: "unchanged_below s s2"
        using u1 u2 by (rule unchanged_below_trans)
      obtain x3 s3 where p3: "st_append_tagged s2 df rows2 c ''Structural'' = (x3, s3)"
        by (cases "st_append_tagged s2 df rows2 c ''Structural''")
      show ?thesis
      proof (cases x3)
        case (Inl e)
        then show ?thesis
          using st_append_tagged_sim [OF r2, of df c "''Structural''"] p1 p2 p3 \<open>x1 = Inr rows1\<close>
            Inr2 a1 a2 u02 df2
          by (simp add: st_merged_outliers_def merged_outliers_def bind_err_def)
      next
        case (Inr merged_rows)
        then have a3: "append_tagged (frames s df) (map (frames s2) rows2) c ''Structural''
                         = Inr (map (frames s3) merged_rows)"
          and u3: "unchanged_below s2 s3"
          using st_append_tagged_sim [OF r2, of df c "''Structural''"] p3 df2 by simp_all
        have u03: "unchanged_below s s3"
          using u02 u3 by (rule unchanged_below_trans)
        have pure: "merged_outliers (frames s df) a b c =
                      (if merged_rows \<noteq> [] then pd_concat (map (frames s3) merged_rows)
                       else Inr DataFrame)"
          by (simp add: merged_outliers_def a1 a2 a3 bind_err_def)
        have st: "st_merged_outliers s df a b c =
                    st_result s3 (if merged_rows \<noteq> [] then pd_concat (map (frames s3) merged_rows)
                                  else Inr DataFrame)"
          using p1 p2 p3 \<open>x1 = Inr rows1\<close> Inr2 Inr
          by (simp add: st_merged_outliers_def st_concat_def)
        show ?thesis
          using st_result_sim [where s = s3 and
              x = "if merged_rows \<noteq> [] then pd_concat (map (frames s3) merged_rows)
                   else Inr DataFrame"] u03
          unfolding st pure
          by (auto split: prod.splits sum.splits intro: unchanged_below_trans)
      qed
    qed
  qed
qed

lemma st_filtered_sim:
  "case st_filtered s m sel of
     (Inl e, s') \<Rightarrow> filtered (frames s m) sel = Inl e \<and> unchanged_below s s'
   | (Inr r, s') \<Rightarrow> filtered (frames s m) sel = Inr (frames s' r) \<and> unchanged_below s s'"
  using st_result_sim [where s = s and x = "select_type (frames s m) ''Statistical''"]
    st_result_sim [where s = s and x = "select_type (frames s m) ''AI-Based''"]
    st_result_sim [where s = s and x = "select_type (frames s m) ''Structural''"]
  by (auto simp: st_filtered_def filtered_def unchanged_below_refl split: prod.splits sum.splits)

lemma st_outlier_view_sim:
  assumes "df < next_ref s"
  shows "case st_outlier_view s df a b c arg of
     (Inl e, s') \<Rightarrow>
       bind_err (merged_outliers (frames s df) a b c)
         (\<lambda>m. filtered m (selected_filter_of arg)) = Inl e \<and> unchanged_below s s'
   | (Inr r, s') \<Rightarrow>
       bind_err (merged_outliers (frames s df) a b c)
         (\<lambda>m. filtered m (selected_filter_of arg)) = Inr (frames s' r) \<and> unchanged_below s s'"
proof (cases "st_merged_outliers s df a b c")
  case (Pair x s1)
  show ?thesis
  proof (cases x)
    case (Inl e)
    then show ?thesis
      using st_merged_outliers_sim [OF assms, of a b c] Pair
      by (simp add: st_outlier_view_def bind_err_def)
  next
    case (Inr m)
    then have pure: "merged_outliers (frames s df) a b c = Inr (frames s1 m)"
      and u: "unchanged_below s s1"
      using st_merged_outliers_sim [OF assms, of a b c] Pair by simp_all
    show ?thesis
      using st_filtered_sim [of s1 m "selected_filter_of arg"] Pair Inr pure u
      by (auto simp: st_outlier_view_def bind_err_def split: prod.splits sum.splits
          intro: unchanged_below_trans)
  qed
qed

text \<open>
  Claim C8. In the store model the loaded frame is an object \<open>df\<close> of the store. Building
  the merged table and filtering it allocates new objects for the selections, the
  copies, the concatenation and the filtered view, and the only assignment,
  \<^verbatim>\<open>temp["__outlier_type__"] = ...\<close>, reaches a copy: whatever the index lists and the
  filter are, and whether or not the route raises, the object \<open>df\<close> is the same frame
  afterwards (columns, labels and rows).
\<close>

theorem outlier_view_leaves_dataset_unchanged:
  assumes "df < next_ref s"
  shows "frames (snd (st_outlier_view s df statistical_idx semantic_idx structural_idx filter_arg)) df
           = frames s df"
  using st_outlier_view_sim [OF assms, of statistical_idx semantic_idx structural_idx filter_arg]
    assms
  by (auto simp: unchanged_below_def split: prod.splits sum.splits)

lemma ex_store_view:
  "fst (st_outlier_view ex_store 0 [2] [2, 0] [] (Some ''ai'')) = Inr 6"
  by (simp add: ex_store_def ex_df_def st_outlier_view_def st_merged_outliers_def
      st_append_tagged_def st_tagged_copy_def st_loc_def st_copy_def st_setitem_def st_concat_def
      st_result_def new_frame_def st_filtered_def selected_filter_of_def lower_def lower_char_def
      loc_def copy_def setitem_def set_cell_def pd_concat_def cell_at_def select_type_def
      getitem_def getitem_mask_def bind_err_def DataFrame_def)

theorem outlier_view_leaves_dataset_unchanged_witness:
  "(0::nat) < next_ref ex_store \<and>
   frames (snd (st_outlier_view ex_store 0 [2] [2, 0] [] (Some ''ai''))) 0 = ex_df"
  using outlier_view_leaves_dataset_unchanged [of 0 ex_store "[2]" "[2, 0]" "[]" "Some ''ai''"]
  by (simp add: ex_store_def)

section \<open>The route as a whole\<close>

lemmas route_defs = quality_issues_def load_df_def ydata_stats_def y_field_def dict_get_def
  get_or_def merged_outliers_def append_tagged_def tagged_copy_def loc_def copy_def setitem_def
  set_cell_def pd_concat_def cell_at_def filtered_def select_type_def getitem_def
  getitem_mask_def selected_filter_of_def lower_def lower_char_def rsplit_dot_def path_join_def
  resolve_target_def session_key_def bind_err_def df_empty_def DataFrame_def

text \<open>
  Claim C1 fails on the code. The dataset loads and no detector flags a row, so the merged
  table is \<^verbatim>\<open>pd.DataFrame()\<close>, which has no column \<^verbatim>\<open>__outlier_type__\<close>; with the
  filter \<open>statistical\<close> the route raises \<^verbatim>\<open>KeyError\<close> instead of returning a report.
\<close>

theorem quality_issues_no_outliers_statistical_raises:
  "quality_issues ex_readers (ex_quality (detect_outliers_spec [] [] [])) ''uploads'' ex_db 7
     (Some ''statistical'') Map.empty = Inl (KeyError ''__outlier_type__'')"
  by (simp add: route_defs ex_readers_def ex_quality_def ex_db_def ex_dataset_def ex_df_def
      detect_outliers_spec_def)

text \<open>The same request without a filter returns a report.\<close>

lemma ex_run_all:
  "\<exists>r. quality_issues ex_readers (ex_quality (detect_outliers_spec [] [] [])) ''uploads'' ex_db 7
     None Map.empty = Inr (r, Map.empty) \<and> merged_table r = Markup ''<p>No outliers found for this category.</p>''"
  by (simp add: route_defs ex_readers_def ex_quality_def ex_db_def ex_dataset_def ex_df_def
      detect_outliers_spec_def str_nat.simps)

lemma bind_err_Inr: "bind_err x f = Inr y \<Longrightarrow> \<exists>v. x = Inr v \<and> f v = Inr y"
  by (cases x) (simp_all add: bind_err_def)

lemma quality_issues_fields:
  assumes "quality_issues pd q upload_folder db i filter_arg session = Inr (r, session')"
  shows "\<exists>dataset df y_stats out.
           db i = Some dataset \<and>
           load_df pd (path_join upload_folder (filename dataset)) (original_filename dataset)
             = Inr df \<and>
           ydata_stats q upload_folder dataset = Inr y_stats \<and>
           detect_outliers q df = Inr out \<and>
           outlier_total r = get_or (outlier_count out) 0 \<and>
           structural_count r = length (get_or (structural_indices out) []) \<and>
           statistical_count r = length (get_or (statistical_indices out) []) \<and>
           semantic_count r = length (get_or (semantic_indices out) []) \<and>
           y_missing_cells r = y_field y_stats ''missing_cells'' \<and>
           y_missing_percent r = y_field y_stats ''missing_cells_percent'' \<and>
           y_dup_rows r = y_field y_stats ''duplicate_rows'' \<and>
           y_dup_percent r = y_field y_stats ''duplicate_rows_percent''"
proof -
  from assms obtain dataset where ds: "db i = Some dataset"
    by (auto simp: quality_issues_def split: option.splits)
  from assms ds obtain df where df:
    "load_df pd (path_join upload_folder (filename dataset)) (original_filename dataset) = Inr df"
    by (auto simp: quality_issues_def dest!: bind_err_Inr)
  from assms ds df obtain y_stats where y: "ydata_stats q upload_folder dataset = Inr y_stats"
    by (auto simp: quality_issues_def bind_err_def split: sum.splits)
  from assms ds df y obtain miss where mi: "detect_missing q df = Inr miss"
    by (auto simp: quality_issues_def bind_err_def split: sum.splits)
  from assms ds df y mi obtain dup where du: "detect_duplicates q df = Inr dup"
    by (auto simp: quality_issues_def bind_err_def split: sum.splits)
  from assms ds df y mi du obtain out where out: "detect_outliers q df = Inr out"
    by (auto simp: quality_issues_def bind_err_def split: sum.splits)
  from assms ds df y mi du out have
    "outlier_total r = get_or (outlier_count out) 0 \<and>
     structural_count r = length (get_or (structural_indices out) []) \<and>
     statistical_count r = length (get_or (statistical_indices out) []) \<and>
     semantic_count r = length (get_or (semantic_indices out) []) \<and>
     y_missing_cells r = y_field y_stats ''missing_cells'' \<and>
     y_missing_percent r = y_field y_stats ''missing_cells_percent'' \<and>
     y_dup_rows r = y_field y_stats ''duplicate_rows'' \<and>
     y_dup_percent r = y_field y_stats ''duplicate_rows_percent''"
    by (auto simp: quality_issues_def bind_err_def Let_def split: sum.splits prod.splits)
  with ds df y out show ?thesis by blast
qed

section \<open>The outlier counts\<close>

lemma arith3:
  fixes x u a b c i1 i2 :: nat
  assumes "u + i1 = a + b" and "x + i2 = u + c"
  shows "x \<le> a + b + c" and "x = a + b + c \<longleftrightarrow> i1 = 0 \<and> i2 = 0"
  using assms by auto

lemma card_Un3:
  assumes "finite A" and "finite B" and "finite C"
  shows "card (A \<union> B \<union> C) \<le> card A + card B + card C"
    and "card (A \<union> B \<union> C) = card A + card B + card C \<longleftrightarrow>
           A \<inter> B = {} \<and> A \<inter> C = {} \<and> B \<inter> C = {}"
proof -
  have ab: "card (A \<union> B) + card (A \<inter> B) = card A + card B"
    using card_Un_Int [OF assms(1,2)] by simp
  have abc: "card (A \<union> B \<union> C) + card ((A \<union> B) \<inter> C) = card (A \<union> B) + card C"
    using card_Un_Int [of "A \<union> B" C] assms by simp
  show "card (A \<union> B \<union> C) \<le> card A + card B + card C"
    by (rule arith3(1) [OF ab abc])
  have "card (A \<union> B \<union> C) = card A + card B + card C \<longleftrightarrow>
          card (A \<inter> B) = 0 \<and> card ((A \<union> B) \<inter> C) = 0"
    by (rule arith3(2) [OF ab abc])
  also have "\<dots> \<longleftrightarrow> A \<inter> B = {} \<and> (A \<union> B) \<inter> C = {}"
    using assms by simp
  also have "\<dots> \<longleftrightarrow> A \<inter> B = {} \<and> A \<inter> C = {} \<and> B \<inter> C = {}"
    by blast
  finally show "card (A \<union> B \<union> C) = card A + card B + card C \<longleftrightarrow>
           A \<inter> B = {} \<and> A \<inter> C = {} \<and> B \<inter> C = {}" .
qed

text \<open>
  Claim C3, against \<open>detect_outliers\<close> as the specification describes it. When the route
  returns a report, the reported total is the size of the union of the three index sets
  of the loaded frame, each per-method count is the size of its set, the total is at most
  the sum of the three counts, and it equals the sum exactly when the three sets are
  pairwise disjoint (no row index is flagged by more than one method).
\<close>

theorem outlier_total_is_union_size:
  assumes run: "quality_issues pd q upload_folder db i filter_arg session = Inr (r, session')"
    and spec: "\<And>df. detect_outliers q df =
                 Inr (detect_outliers_spec (structural df) (statistical df) (semantic df))"
  shows "\<exists>dataset df.
           db i = Some dataset \<and>
           load_df pd (path_join upload_folder (filename dataset)) (original_filename dataset)
             = Inr df \<and>
           outlier_total r
             = card (set (structural df) \<union> set (statistical df) \<union> set (semantic df)) \<and>
           structural_count r = card (set (structural df)) \<and>
           statistical_count r = card (set (statistical df)) \<and>
           semantic_count r = card (set (semantic df)) \<and>
           outlier_total r \<le> structural_count r + statistical_count r + semantic_count r \<and>
           (outlier_total r = structural_count r + statistical_count r + semantic_count r \<longleftrightarrow>
              set (structural df) \<inter> set (statistical df) = {} \<and>
              set (structural df) \<inter> set (semantic df) = {} \<and>
              set (statistical df) \<inter> set (semantic df) = {})"
proof -
  from quality_issues_fields [OF run] obtain dataset df out where
    ds: "db i = Some dataset"
    and df: "load_df pd (path_join upload_folder (filename dataset)) (original_filename dataset)
               = Inr df"
    and out: "detect_outliers q df = Inr out"
    and total: "outlier_total r = get_or (outlier_count out) 0"
    and c1: "structural_count r = length (get_or (structural_indices out) [])"
    and c2: "statistical_count r = length (get_or (statistical_indices out) [])"
    and c3: "semantic_count r = length (get_or (semantic_indices out) [])"
    by blast
  let ?A = "set (structural df)" and ?B = "set (statistical df)" and ?C = "set (semantic df)"
  have o: "out = detect_outliers_spec (structural df) (statistical df) (semantic df)"
    using out spec [of df] by simp
  have t: "outlier_total r = card (?A \<union> ?B \<union> ?C)"
    by (simp add: total o detect_outliers_spec_def get_or_def length_remdups_card_conv Un_assoc)
  have n1: "structural_count r = card ?A"
    by (simp add: c1 o detect_outliers_spec_def get_or_def length_remdups_card_conv)
  have n2: "statistical_count r = card ?B"
    by (simp add: c2 o detect_outliers_spec_def get_or_def length_remdups_card_conv)
  have n3: "semantic_count r = card ?C"
    by (simp add: c3 o detect_outliers_spec_def get_or_def length_remdups_card_conv)
  have le: "card (?A \<union> ?B \<union> ?C) \<le> card ?A + card ?B + card ?C"
    by (rule card_Un3(1)) simp_all
  have eq: "card (?A \<union> ?B \<union> ?C) = card ?A + card ?B + card ?C \<longleftrightarrow>
              ?A \<inter> ?B = {} \<and> ?A \<inter> ?C = {} \<and> ?B \<inter> ?C = {}"
    by (rule card_Un3(2)) simp_all
  show ?thesis
    using ds df t n1 n2 n3 le eq by (intro exI [of _ dataset] exI [of _ df]) simp
qed

lemma ex_run:
  "\<exists>r. quality_issues ex_readers (ex_quality (detect_outliers_spec [1] [2] [2, 0])) ''uploads''
          ex_db 7 (Some ''AI'') Map.empty = Inr (r, Map.empty)"
  by (simp add: route_defs ex_readers_def ex_quality_def ex_db_def ex_dataset_def ex_df_def
      detect_outliers_spec_def str_nat.simps)

theorem outlier_total_is_union_size_witness:
  "\<exists>r. quality_issues ex_readers (ex_quality (detect_outliers_spec [1] [2] [2, 0])) ''uploads''
          ex_db 7 (Some ''AI'') Map.empty = Inr (r, Map.empty) \<and>
       outlier_total r = 3 \<and>
       structural_count r + statistical_count r + semantic_count r = 4"
proof -
  obtain r where run:
    "quality_issues ex_readers (ex_quality (detect_outliers_spec [1] [2] [2, 0])) ''uploads''
       ex_db 7 (Some ''AI'') Map.empty = Inr (r, Map.empty)"
    using ex_run by blast
  have spec: "detect_outliers (ex_quality (detect_outliers_spec [1] [2] [2, 0])) df =
                Inr (detect_outliers_spec ((\<lambda>_. [1]) df) ((\<lambda>_. [2]) df) ((\<lambda>_. [2, 0]) df))" for df
    by (simp add: ex_quality_def)
  have "card ({1} \<union> {2} \<union> {2, 0 :: nat}) = 3"
    by (simp add: insert_commute card_insert_if)
  with outlier_total_is_union_size [OF run spec] run show ?thesis
    by auto
qed

section \<open>The target column\<close>

text \<open>
  Claim C4. A session value is an override when it is not empty (the route
  \<^verbatim>\<open>change_target_column\<close> stores no empty value). An override that names a column
  of the frame is the resolved target, whatever automatic detection would do, even raise;
  an override that names no column, and an absent override, give the result of automatic
  detection.
\<close>

theorem resolve_target_override:
  "(session (session_key (dataset_id dataset)) = Some m \<and> m \<noteq> [] \<and> m \<in> set (columns df) \<longrightarrow>
      resolve_target q df dataset session = Inr (Some m, session)) \<and>
   (session (session_key (dataset_id dataset)) = Some m \<and> m \<notin> set (columns df) \<longrightarrow>
      map_sum id fst (resolve_target q df dataset session) = auto_detect_target_column q df) \<and>
   (session (session_key (dataset_id dataset)) = None \<longrightarrow>
      map_sum id fst (resolve_target q df dataset session) = auto_detect_target_column q df)"
  by (cases "auto_detect_target_column q df")
    (simp_all add: resolve_target_def bind_err_def Let_def)

theorem resolve_target_override_witness:
  "resolve_target ex_failing_quality ex_df ex_dataset (ex_session ''age'')
     = Inr (Some ''age'', ex_session ''age'') \<and>
   map_sum id fst (resolve_target (ex_quality (detect_outliers_spec [] [] [])) ex_df ex_dataset
     (ex_session ''height'')) = Inr (Some ''label'') \<and>
   map_sum id fst (resolve_target (ex_quality (detect_outliers_spec [] [] [])) ex_df ex_dataset
     Map.empty) = Inr (Some ''label'')"
  using resolve_target_override [of "ex_session ''age''" ex_dataset "''age''" ex_df ex_failing_quality]
    resolve_target_override [of "ex_session ''height''" ex_dataset "''height''" ex_df
      "ex_quality (detect_outliers_spec [] [] [])"]
    resolve_target_override [of Map.empty ex_dataset "''x''" ex_df
      "ex_quality (detect_outliers_spec [] [] [])"]
  by (simp add: ex_session_def ex_dataset_def ex_df_def ex_quality_def)

text \<open>
  Claim C9. An override that names no column of the frame is removed from the session,
  and the target is the one automatic detection returns; with no override, or one that
  names a column, the session is returned as it was.
\<close>

theorem resolve_target_session:
  "(session (session_key (dataset_id dataset)) = Some m \<and> m \<noteq> [] \<and> m \<notin> set (columns df) \<and>
    auto_detect_target_column q df = Inr target \<longrightarrow>
      resolve_target q df dataset session
        = Inr (target, session(session_key (dataset_id dataset) := None))) \<and>
   (session (session_key (dataset_id dataset)) = None \<or>
    (session (session_key (dataset_id dataset)) = Some m \<and> m \<in> set (columns df)) \<longrightarrow>
      (\<forall>target session'. resolve_target q df dataset session = Inr (target, session')
         \<longrightarrow> session' = session))"
  by (cases "auto_detect_target_column q df")
    (auto simp add: resolve_target_def bind_err_def Let_def)

theorem resolve_target_session_witness:
  "resolve_target (ex_quality (detect_outliers_spec [] [] [])) ex_df ex_dataset
     (ex_session ''height'') = Inr (Some ''label'', Map.empty) \<and>
   resolve_target (ex_quality (detect_outliers_spec [] [] [])) ex_df ex_dataset
     (ex_session ''age'') = Inr (Some ''age'', ex_session ''age'')"
proof -
  let ?q = "ex_quality (detect_outliers_spec [] [] [])"
  have a: "auto_detect_target_column ?q ex_df = Inr (Some ''label'')"
    by (simp add: ex_quality_def)
  have k: "dataset_id ex_dataset = 7"
    by (simp add: ex_dataset_def)
  have gone: "(ex_session ''height'')(session_key 7 := None) = Map.empty"
    by (simp add: ex_session_def)
  have one: "resolve_target ?q ex_df ex_dataset (ex_session ''height'')
               = Inr (Some ''label'', Map.empty)"
    using resolve_target_session [of "ex_session ''height''" ex_dataset "''height''" ex_df ?q
        "Some ''label''"] a gone
    by (simp add: k ex_session_def ex_df_def)
  have two: "resolve_target ?q ex_df ex_dataset (ex_session ''age'')
               = Inr (Some ''age'', ex_session ''age'')"
    by (simp add: resolve_target_def Let_def k ex_session_def ex_df_def)
  show ?thesis
    using one two by simp
qed

text \<open>
  The two routes keep the session free of empty values, so an override read by the
  quality route is never the empty string.
\<close>

lemma change_target_column_nonempty:
  assumes "\<forall>k v. session k = Some v \<longrightarrow> v \<noteq> []"
    and "change_target_column dataset current_user_id new_target session k = Some v"
  shows "v \<noteq> []"
  using assms by (auto simp: change_target_column_def split: option.splits if_splits)

lemma resolve_target_nonempty:
  assumes "\<forall>k v. session k = Some v \<longrightarrow> v \<noteq> []"
    and "resolve_target q df dataset session = Inr (target, session')"
    and "session' k = Some v"
  shows "v \<noteq> []"
proof -
  have "session' = session \<or> session' = session(session_key (dataset_id dataset) := None)"
    using assms(2)
    by (cases "auto_detect_target_column q df")
      (auto simp: resolve_target_def bind_err_def Let_def split: if_splits)
  then have "session k = Some v"
    using assms(3) by (auto split: if_splits)
  then show ?thesis
    using assms(1) by blast
qed

section \<open>The overview numbers of the profile report\<close>

text \<open>
  Claim C7. When the route returns a report for a dataset whose profile was not generated
  or that records no profile path, the extractor is not consulted (the step yields no
  statistics whatever the extractor is) and the four overview values are \<open>N/A\<close>. When
  the extractor runs and returns a dictionary, each of the four values is the entry
  under its key, and \<open>N/A\<close> where the dictionary has no such key, independently of the
  other three.
\<close>

theorem ydata_metrics_unavailable:
  assumes "quality_issues pd q upload_folder db i filter_arg session = Inr (r, session')"
    and "db i = Some dataset"
  shows "(\<not> profile_generated dataset \<or> profile_path dataset = None \<or>
          profile_path dataset = Some [] \<longrightarrow>
            ydata_stats q upload_folder dataset = Inr None \<and>
            y_missing_cells r = Str ''N/A'' \<and> y_missing_percent r = Str ''N/A'' \<and>
            y_dup_rows r = Str ''N/A'' \<and> y_dup_percent r = Str ''N/A'') \<and>
         (profile_generated dataset \<and> profile_path dataset = Some p \<and> p \<noteq> [] \<and>
          extract_ydata_overview_stats q (path_join upload_folder p) = Inr (Some d) \<longrightarrow>
            y_missing_cells r =
              (case map_of d ''missing_cells'' of None \<Rightarrow> Str ''N/A'' | Some v \<Rightarrow> v) \<and>
            y_missing_percent r =
              (case map_of d ''missing_cells_percent'' of None \<Rightarrow> Str ''N/A'' | Some v \<Rightarrow> v) \<and>
            y_dup_rows r =
              (case map_of d ''duplicate_rows'' of None \<Rightarrow> Str ''N/A'' | Some v \<Rightarrow> v) \<and>
            y_dup_percent r =
              (case map_of d ''duplicate_rows_percent'' of None \<Rightarrow> Str ''N/A'' | Some v \<Rightarrow> v))"
proof -
  from quality_issues_fields [OF assms(1)] assms(2) obtain y_stats where
    y: "ydata_stats q upload_folder dataset = Inr y_stats"
    and f1: "y_missing_cells r = y_field y_stats ''missing_cells''"
    and f2: "y_missing_percent r = y_field y_stats ''missing_cells_percent''"
    and f3: "y_dup_rows r = y_field y_stats ''duplicate_rows''"
    and f4: "y_dup_percent r = y_field y_stats ''duplicate_rows_percent''"
    by auto
  have skipped: "y_stats = None"
    if "\<not> profile_generated dataset \<or> profile_path dataset = None \<or>
        profile_path dataset = Some []"
    using that y by (auto simp: ydata_stats_def split: option.splits if_splits)
  have ran: "y_stats = Some d"
    if "profile_generated dataset \<and> profile_path dataset = Some p \<and> p \<noteq> [] \<and>
        extract_ydata_overview_stats q (path_join upload_folder p) = Inr (Some d)"
    using that y by (simp add: ydata_stats_def)
  have field: "y_field (Some d) key =
                 (case map_of d key of None \<Rightarrow> Str ''N/A'' | Some v \<Rightarrow> v)" for key
    by (cases d) (simp_all add: y_field_def dict_get_def)
  have none: "y_field None key = Str ''N/A''" for key
    by (simp add: y_field_def)
  show ?thesis
    using skipped ran y by (auto simp: f1 f2 f3 f4 field none)
qed

lemma ex_profiled_run:
  "\<exists>r. quality_issues ex_readers (ex_quality (detect_outliers_spec [] [] [])) ''uploads''
          (Map.empty(7 \<mapsto> ex_profiled)) 7 None Map.empty = Inr (r, Map.empty)"
  by (simp add: route_defs ex_readers_def ex_quality_def ex_profiled_def ex_dataset_def ex_df_def
      detect_outliers_spec_def str_nat.simps)

theorem ydata_metrics_unavailable_witness:
  "(\<exists>r. quality_issues ex_readers (ex_quality (detect_outliers_spec [] [] [])) ''uploads''
          ex_db 7 None Map.empty = Inr (r, Map.empty) \<and>
        y_missing_cells r = Str ''N/A'' \<and> y_missing_percent r = Str ''N/A'' \<and>
        y_dup_rows r = Str ''N/A'' \<and> y_dup_percent r = Str ''N/A'') \<and>
   (\<exists>r. quality_issues ex_readers (ex_quality (detect_outliers_spec [] [] [])) ''uploads''
          (Map.empty(7 \<mapsto> ex_profiled)) 7 None Map.empty = Inr (r, Map.empty) \<and>
        y_missing_cells r = Num 3 \<and> y_dup_rows r = Str ''N/A'')"
proof -
  let ?q = "ex_quality (detect_outliers_spec [] [] [])"
  obtain r1 where run1:
    "quality_issues ex_readers ?q ''uploads'' ex_db 7 None Map.empty = Inr (r1, Map.empty)"
    using ex_run_all by blast
  have db1: "ex_db 7 = Some ex_dataset"
    by (simp add: ex_db_def)
  have one: "y_missing_cells r1 = Str ''N/A'' \<and> y_missing_percent r1 = Str ''N/A'' \<and>
             y_dup_rows r1 = Str ''N/A'' \<and> y_dup_percent r1 = Str ''N/A''"
    using ydata_metrics_unavailable [OF run1 db1, of "''x''" "[]"]
    by (simp add: ex_dataset_def)
  obtain r2 where run2:
    "quality_issues ex_readers ?q ''uploads'' (Map.empty(7 \<mapsto> ex_profiled)) 7 None Map.empty
       = Inr (r2, Map.empty)"
    using ex_profiled_run by blast
  have db2: "(Map.empty(7 \<mapsto> ex_profiled)) 7 = Some ex_profiled"
    by simp
  have two: "y_missing_cells r2 = Num 3 \<and> y_dup_rows r2 = Str ''N/A''"
    using ydata_metrics_unavailable [OF run2 db2, of "''profile_7.html''" "[(''missing_cells'', Num 3)]"]
    by (simp add: ex_profiled_def ex_dataset_def ex_quality_def)
  show ?thesis
    using run1 one run2 two by blast
qed

end
